theory Spec2Isabelle
  imports Complex_Main "HOL-Library.Log_Nat"
begin

section \<open>Python values used by the tool registry\<close>

text \<open>
  A Python \<open>str\<close> is a sequence of Unicode code points, so it is modelled as a list of
  natural numbers: slicing, stripping and joining count code points, as Python does.
  \<open>lit\<close> turns an ASCII literal into such a string; the four non-ASCII characters of
  \<^verbatim>\<open>tools.py\<close> are given by their code points.
\<close>

type_synonym pystr = "nat list"

definition lit :: "string \<Rightarrow> pystr" where
  "lit cs = map of_char cs"

definition RUPEE :: pystr where "RUPEE = [8377]"      \<comment> \<open>U+20B9\<close>
definition EN_DASH :: pystr where "EN_DASH = [8211]"  \<comment> \<open>U+2013\<close>
definition EM_DASH :: pystr where "EM_DASH = [8212]"  \<comment> \<open>U+2014\<close>
definition BOX_H :: pystr where "BOX_H = [9472]"      \<comment> \<open>U+2500\<close>

text \<open>The exceptions that the modelled code can raise.\<close>

datatype pyerror =
    TypeError pystr
  | AttributeError pystr
  | ValueError pystr

subsection \<open>String methods\<close>

text \<open>\<open>str.isspace\<close> on one code point: the Unicode white-space characters.\<close>

definition py_isspace :: "nat \<Rightarrow> bool" where
  "py_isspace c \<longleftrightarrow>
     (9 \<le> c \<and> c \<le> 13) \<or> (28 \<le> c \<and> c \<le> 32) \<or> c = 133 \<or> c = 160 \<or> c = 5760 \<or>
     (8192 \<le> c \<and> c \<le> 8202) \<or> c = 8232 \<or> c = 8233 \<or> c = 8239 \<or> c = 8287 \<or> c = 12288"

text \<open>\<open>s.strip()\<close>: white space removed at both ends.\<close>

definition py_strip :: "pystr \<Rightarrow> pystr" where
  "py_strip s = rev (dropWhile py_isspace (rev (dropWhile py_isspace s)))"

text \<open>
  \<open>s.upper()\<close>. On ASCII it maps \<open>a..z\<close> to \<open>A..Z\<close> and leaves the rest alone. Beyond
  ASCII it follows the Unicode case-mapping table of the interpreter, which is not part
  of the repository: the table is the parameter \<open>uc\<close>, giving for a code point the code
  points of its upper-case form (one to three of them).
\<close>

definition py_upper :: "(nat \<Rightarrow> pystr) \<Rightarrow> pystr \<Rightarrow> pystr" where
  "py_upper uc s =
     concat (map (\<lambda>c. if 97 \<le> c \<and> c \<le> 122 then [c - 32] else if c < 128 then [c] else uc c) s)"

text \<open>\<open>sep.join(xs)\<close>.\<close>

fun py_join :: "pystr \<Rightarrow> pystr list \<Rightarrow> pystr" where
  "py_join sep [] = []"
| "py_join sep [x] = x"
| "py_join sep (x # y # ys) = x @ sep @ py_join sep (y # ys)"

subsection \<open>Integers\<close>

text \<open>The decimal digits of a natural number, most significant first.\<close>

function dec_digits :: "nat \<Rightarrow> pystr" where
  "dec_digits n = (if n < 10 then [48 + n] else dec_digits (n div 10) @ [48 + n mod 10])"
  by pat_completeness auto
termination
  by (relation "measure id") auto

declare dec_digits.simps [simp del]

text \<open>\<open>str(i)\<close> for an \<open>int\<close>.\<close>

definition py_str_int :: "int \<Rightarrow> pystr" where
  "py_str_int i = (if i < 0 then lit ''-'' else []) @ dec_digits (nat \<bar>i\<bar>)"

text \<open>
  The \<open>,\<close> option of the format mini-language: a comma between groups of three digits,
  counted from the right. \<open>group_rev\<close> works on the reversed digit string.
\<close>

fun group_rev :: "pystr \<Rightarrow> pystr" where
  "group_rev (a # b # c # d # rest) = a # b # c # 44 # group_rev (d # rest)"
| "group_rev ds = ds"

definition group3 :: "pystr \<Rightarrow> pystr" where
  "group3 ds = rev (group_rev (rev ds))"

text \<open>\<open>f"{i:,}"\<close> for an \<open>int\<close>.\<close>

definition fmt_int_grouped :: "int \<Rightarrow> pystr" where
  "fmt_int_grouped i = (if i < 0 then lit ''-'' else []) @ group3 (dec_digits (nat \<bar>i\<bar>))"

subsection \<open>Floats\<close>

text \<open>
  A Python \<open>float\<close> is an IEEE binary64 value. A finite non-zero value, and positive
  zero, is the rational number it denotes (\<open>Fin\<close>); negative zero, the infinities and
  NaN are values of their own, since they print and compare differently.
\<close>

datatype pyfloat = Fin rat | NegZero | PInf | NInf | NaN

text \<open>Truthiness of a float (\<open>bool(x)\<close>): false exactly for the two zeros.\<close>

fun float_truthy :: "pyfloat \<Rightarrow> bool" where
  "float_truthy (Fin q) = (q \<noteq> 0)"
| "float_truthy NegZero = False"
| "float_truthy _ = True"

text \<open>\<open>x >= 0\<close>.\<close>

fun float_ge0 :: "pyfloat \<Rightarrow> bool" where
  "float_ge0 (Fin q) = (0 \<le> q)"
| "float_ge0 NegZero = True"
| "float_ge0 PInf = True"
| "float_ge0 _ = False"

text \<open>Rounding to the nearest integer, ties to the even one.\<close>

definition round_half_even :: "rat \<Rightarrow> int" where
  "round_half_even q =
     (let f = \<lfloor>q\<rfloor>; d = q - of_int f
      in if d < 1 / 2 then f else if 1 / 2 < d then f + 1 else if even f then f else f + 1)"

text \<open>\<open>zfill\<close>: the digit string padded with zeros on the left to width \<open>p\<close>.\<close>

definition zero_pad :: "nat \<Rightarrow> pystr \<Rightarrow> pystr" where
  "zero_pad p ds = replicate (p - length ds) 48 @ ds"

text \<open>
  Fixed-point formatting of a non-negative rational with \<open>p\<close> decimals: the exact value
  is rounded to the nearest multiple of \<open>10\<^sup>-\<^sup>p\<close>, ties to even, which is what CPython's
  correctly rounded conversion does for a binary64 value. \<open>grp\<close> is the \<open>,\<close> option.
\<close>

definition fmt_magnitude :: "bool \<Rightarrow> nat \<Rightarrow> rat \<Rightarrow> pystr" where
  "fmt_magnitude grp p m =
     (let n = nat (round_half_even (m * 10 ^ p));
          ip = dec_digits (n div 10 ^ p);
          fp = zero_pad p (dec_digits (n mod 10 ^ p))
      in (if grp then group3 ip else ip) @ (if p = 0 then [] else lit ''.'' @ fp))"

text \<open>\<open>f"{x:.pf}"\<close> and, with \<open>grp\<close>, \<open>f"{x:,.pf}"\<close> for a float.\<close>

fun fmt_fixed :: "bool \<Rightarrow> nat \<Rightarrow> pyfloat \<Rightarrow> pystr" where
  "fmt_fixed grp p (Fin q) = (if q < 0 then lit ''-'' else []) @ fmt_magnitude grp p \<bar>q\<bar>"
| "fmt_fixed grp p NegZero = lit ''-'' @ fmt_magnitude grp p 0"
| "fmt_fixed grp p PInf = lit ''inf''"
| "fmt_fixed grp p NInf = lit ''-inf''"
| "fmt_fixed grp p NaN = lit ''nan''"

text \<open>
  Rounding a real result to binary64, ties to even: 53 significant bits for a normal
  value, multiples of \<open>2\<^sup>-\<^sup>1\<^sup>0\<^sup>7\<^sup>4\<close> below \<open>2\<^sup>-\<^sup>1\<^sup>0\<^sup>2\<^sup>2\<close>, an infinity from \<open>2\<^sup>1\<^sup>0\<^sup>2\<^sup>4\<close> on.
  \<open>ilog2 q\<close> is the exponent \<open>e\<close> with \<open>2\<^sup>e \<le> q < 2\<^sup>e\<^sup>+\<^sup>1\<close>, for \<open>q > 0\<close>.
\<close>

definition pow2 :: "int \<Rightarrow> rat" where
  "pow2 e = (if 0 \<le> e then 2 ^ nat e else 1 / 2 ^ nat (- e))"

definition ilog2 :: "rat \<Rightarrow> int" where
  "ilog2 q =
     (let (n, d) = quotient_of q;
          e0 = int (floorlog 2 (nat n)) - int (floorlog 2 (nat d))
      in if pow2 e0 \<le> q then e0 else e0 - 1)"

definition fl :: "rat \<Rightarrow> pyfloat" where
  "fl q =
     (if q = 0 then Fin 0
      else
        let e = max (ilog2 \<bar>q\<bar>) (- 1022);
            ulp = pow2 (e - 52);
            r = of_int (round_half_even (\<bar>q\<bar> / ulp)) * ulp
        in if pow2 1024 \<le> r then (if q < 0 then NInf else PInf)
           else if r = 0 then (if q < 0 then NegZero else Fin 0)
           else Fin (if q < 0 then - r else r))"

text \<open>\<open>x * 100\<close> and \<open>x / 1e7\<close> on a float; both constants are exact in binary64.\<close>

fun float_scale :: "rat \<Rightarrow> pyfloat \<Rightarrow> pyfloat" where
  "float_scale k (Fin q) = fl (q * k)"
| "float_scale k x = x"

definition times100 :: "pyfloat \<Rightarrow> pyfloat" where
  "times100 x = float_scale 100 x"

definition div1e7 :: "pyfloat \<Rightarrow> pyfloat" where
  "div1e7 x = float_scale (1 / 10000000) x"

subsection \<open>Representations\<close>

definition QUOTE :: pystr where "QUOTE = [39]"
definition NL :: pystr where "NL = [10]"

definition hex_digit :: "nat \<Rightarrow> nat" where
  "hex_digit d = (if d < 10 then 48 + d else 87 + d)"

text \<open>
  \<open>repr\<close> of a string: quoted with \<open>'\<close>, or with \<open>"\<close> when the string has a \<open>'\<close> and no
  \<open>"\<close>; the quote character, the backslash and the ASCII control characters are escaped.
  Code points from 128 on are kept as they are (right for the printable ones); the
  strings this is applied to, the names of the registry, are ASCII.
\<close>

definition repr_char :: "nat \<Rightarrow> nat \<Rightarrow> pystr" where
  "repr_char q c =
     (if c = q \<or> c = 92 then [92, c]
      else if c = 9 then [92, 116]
      else if c = 10 then [92, 110]
      else if c = 13 then [92, 114]
      else if c < 32 \<or> c = 127 then [92, 120, hex_digit (c div 16), hex_digit (c mod 16)]
      else [c])"

definition py_repr_str :: "pystr \<Rightarrow> pystr" where
  "py_repr_str s =
     (let q = (if 39 \<in> set s \<and> 34 \<notin> set s then 34 else 39)
      in [q] @ concat (map (repr_char q) s) @ [q])"

text \<open>\<open>str(xs)\<close> for a list of strings.\<close>

definition py_str_list :: "pystr list \<Rightarrow> pystr" where
  "py_str_list xs = lit ''['' @ py_join (lit '', '') (map py_repr_str xs) @ lit '']''"

text \<open>\<open>str(x)\<close> for an optional string: \<open>None\<close> prints as \<open>None\<close>.\<close>

definition py_str_opt :: "pystr option \<Rightarrow> pystr" where
  "py_str_opt x = (case x of None \<Rightarrow> lit ''None'' | Some s \<Rightarrow> s)"

subsection \<open>Argument values\<close>

text \<open>The values an argument mapping can hold: what JSON decodes to.\<close>

datatype jsonval =
    JNull
  | JBool bool
  | JInt int
  | JFloat pyfloat
  | JStr pystr
  | JList "jsonval list"
  | JDict "(pystr \<times> jsonval) list"

fun truthy :: "jsonval \<Rightarrow> bool" where
  "truthy JNull = False"
| "truthy (JBool b) = b"
| "truthy (JInt i) = (i \<noteq> 0)"
| "truthy (JFloat x) = float_truthy x"
| "truthy (JStr s) = (s \<noteq> [])"
| "truthy (JList xs) = (xs \<noteq> [])"
| "truthy (JDict kvs) = (kvs \<noteq> [])"

fun type_name :: "jsonval \<Rightarrow> pystr" where
  "type_name JNull = lit ''NoneType''"
| "type_name (JBool b) = lit ''bool''"
| "type_name (JInt i) = lit ''int''"
| "type_name (JFloat x) = lit ''float''"
| "type_name (JStr s) = lit ''str''"
| "type_name (JList xs) = lit ''list''"
| "type_name (JDict kvs) = lit ''dict''"

text \<open>\<open>arguments.get(key)\<close>: \<open>None\<close> for a missing key.\<close>

definition dict_get :: "(pystr \<rightharpoonup> jsonval) \<Rightarrow> pystr \<Rightarrow> jsonval" where
  "dict_get arguments key = (case arguments key of None \<Rightarrow> JNull | Some v \<Rightarrow> v)"

text \<open>\<open>a or b\<close>.\<close>

definition py_or :: "jsonval \<Rightarrow> jsonval \<Rightarrow> jsonval" where
  "py_or a b = (if truthy a then a else b)"

text \<open>\<open>v.strip()\<close>: only a string has the method.\<close>

fun strip_method :: "jsonval \<Rightarrow> pyerror + pystr" where
  "strip_method (JStr s) = Inr (py_strip s)"
| "strip_method v =
     Inl (AttributeError (QUOTE @ type_name v @ QUOTE @ lit '' object has no attribute 'strip'' @ QUOTE))"

text \<open>\<open>(arguments.get(key) or "").strip()\<close>, as all three branches of \<open>call_tool\<close> begin.\<close>

definition stripped_arg :: "(pystr \<rightharpoonup> jsonval) \<Rightarrow> pystr \<Rightarrow> pyerror + pystr" where
  "stripped_arg arguments key = strip_method (py_or (dict_get arguments key) (JStr []))"

section \<open>The data consumed by the formatters\<close>

text \<open>
  Modelled from the spec: the class of the market scraper's response (the
  MarketDataResult and NewsItem of the data model), which \<^verbatim>\<open>tools.py\<close> reads but does
  not declare. The attributes are those the formatters and the dispatcher read, under
  the names the code uses. The symbol, the capture time, the success flag and the news
  list are always there; every other attribute may be \<open>None\<close>. Prices, averages, ratios
  and targets are floats; the volume and the number of analysts are integers.
\<close>

record news_item =
  title :: pystr
  publisher :: pystr
  published_at :: "pystr option"
  link :: pystr

record scrape_response =
  symbol :: pystr
  company_name :: "pystr option"
  sector :: "pystr option"
  industry :: "pystr option"
  description :: "pystr option"
  price :: "pyfloat option"
  change :: "pyfloat option"
  change_pct :: "pyfloat option"
  day_low :: "pyfloat option"
  day_high :: "pyfloat option"
  prev_close :: "pyfloat option"
  week_52_low :: "pyfloat option"
  week_52_high :: "pyfloat option"
  volume :: "int option"
  ma_50 :: "pyfloat option"
  ma_200 :: "pyfloat option"
  market_cap :: "pyfloat option"
  pe_ratio :: "pyfloat option"
  forward_pe :: "pyfloat option"
  eps :: "pyfloat option"
  book_value :: "pyfloat option"
  price_to_book :: "pyfloat option"
  dividend_yield :: "pyfloat option"
  beta :: "pyfloat option"
  roe :: "pyfloat option"
  profit_margin :: "pyfloat option"
  debt_to_equity :: "pyfloat option"
  current_ratio :: "pyfloat option"
  recommendation :: "pystr option"
  analyst_count :: "int option"
  target_mean_price :: "pyfloat option"
  target_high_price :: "pyfloat option"
  target_low_price :: "pyfloat option"
  news :: "news_item list"
  scraped_ok :: bool
  error :: "pystr option"
  timestamp :: pystr

text \<open>Truthiness of optional attributes: \<open>None\<close>, zero and the empty string are false.\<close>

definition float_present :: "pyfloat option \<Rightarrow> bool" where
  "float_present x = (case x of None \<Rightarrow> False | Some v \<Rightarrow> float_truthy v)"


definition str_present :: "pystr option \<Rightarrow> bool" where
  "str_present x = (case x of None \<Rightarrow> False | Some s \<Rightarrow> s \<noteq> [])"

text \<open>\<open>x or default\<close> for an optional string.\<close>

definition str_or :: "pystr option \<Rightarrow> pystr \<Rightarrow> pystr" where
  "str_or x d = (case x of None \<Rightarrow> d | Some s \<Rightarrow> if s \<noteq> [] then s else d)"

text \<open>
  Formatting an optional float with a \<open>.2f\<close> specification: \<open>None\<close> has no such format
  and Python raises \<open>TypeError\<close>.
\<close>

definition none_format_error :: pyerror where
  "none_format_error = TypeError (lit ''unsupported format string passed to NoneType.__format__'')"

definition fmt_fixed_opt :: "bool \<Rightarrow> nat \<Rightarrow> pyfloat option \<Rightarrow> pyerror + pystr" where
  "fmt_fixed_opt grp p x =
     (case x of None \<Rightarrow> Inl none_format_error | Some v \<Rightarrow> Inr (fmt_fixed grp p v))"

section \<open>The formatters\<close>

subsection \<open>Concise price summary\<close>

definition SEP :: pystr where "SEP = lit ''  |  ''"

text \<open>The source and time stamp that end both layouts: \<open>r.timestamp[:19]\<close>.\<close>

definition source_footer :: "scrape_response \<Rightarrow> pystr" where
  "source_footer r = lit ''[Source: Yahoo Finance  |  As of: '' @ take 19 (timestamp r) @ lit '']''"

definition header_line :: "scrape_response \<Rightarrow> pystr" where
  "header_line r =
     (let name = str_or (company_name r) (symbol r)
      in symbol r @ lit '' ('' @ name @ lit '') | NSE'')"

text \<open>Lines 99 to 104: the price, with the change when both change fields are there.\<close>

definition price_line :: "scrape_response \<Rightarrow> pystr list" where
  "price_line r =
     (case price r of
        None \<Rightarrow> []
      | Some p \<Rightarrow>
          let change_str =
                (case change r of
                   None \<Rightarrow> []
                 | Some c \<Rightarrow>
                     (case change_pct r of
                        None \<Rightarrow> []
                      | Some cp \<Rightarrow>
                          let sign = (if float_ge0 c then lit ''+'' else [])
                          in SEP @ lit ''Change: '' @ sign @ RUPEE @ fmt_fixed False 2 c @
                             lit '' ('' @ sign @ fmt_fixed False 2 cp @ lit ''%)''))
          in [lit ''Price: '' @ RUPEE @ fmt_fixed True 2 p @ change_str])"

text \<open>Lines 106 to 108.\<close>

definition day_range_line :: "scrape_response \<Rightarrow> pystr list" where
  "day_range_line r =
     (case day_low r of
        None \<Rightarrow> []
      | Some lo \<Rightarrow>
          (case day_high r of
             None \<Rightarrow> []
           | Some hi \<Rightarrow>
               let prev =
                     (case prev_close r of
                        None \<Rightarrow> []
                      | Some pc \<Rightarrow>
                          if float_truthy pc
                          then SEP @ lit ''Prev Close: '' @ RUPEE @ fmt_fixed True 2 pc
                          else [])
               in [lit ''Day Range: '' @ RUPEE @ fmt_fixed True 2 lo @ lit '' '' @ EN_DASH @
                   lit '' '' @ RUPEE @ fmt_fixed True 2 hi @ prev]))"

text \<open>Lines 110 and 111.\<close>

definition week_52_line :: "scrape_response \<Rightarrow> pystr list" where
  "week_52_line r =
     (case week_52_low r of
        None \<Rightarrow> []
      | Some lo \<Rightarrow>
          (case week_52_high r of
             None \<Rightarrow> []
           | Some hi \<Rightarrow>
               [lit ''52W Range: '' @ RUPEE @ fmt_fixed True 2 lo @ lit '' '' @ EN_DASH @
                lit '' '' @ RUPEE @ fmt_fixed True 2 hi]))"

text \<open>Lines 113 to 121: the parts that are truthy, joined on one line.\<close>

definition volume_parts :: "scrape_response \<Rightarrow> pystr list" where
  "volume_parts r =
     (case volume r of
        None \<Rightarrow> []
      | Some v \<Rightarrow> if v \<noteq> 0 then [lit ''Volume: '' @ fmt_int_grouped v] else []) @
     (case ma_50 r of
        None \<Rightarrow> []
      | Some m \<Rightarrow> if float_truthy m then [lit ''MA50: '' @ RUPEE @ fmt_fixed True 2 m] else []) @
     (case ma_200 r of
        None \<Rightarrow> []
      | Some m \<Rightarrow> if float_truthy m then [lit ''MA200: '' @ RUPEE @ fmt_fixed True 2 m] else [])"

definition volume_line :: "scrape_response \<Rightarrow> pystr list" where
  "volume_line r =
     (let parts = volume_parts r in if parts \<noteq> [] then [py_join SEP parts] else [])"

text \<open>The list \<open>lines\<close> when \<open>_fmt_price\<close> returns, and the function itself.\<close>

definition price_lines :: "scrape_response \<Rightarrow> pystr list" where
  "price_lines r =
     [header_line r] @ price_line r @ day_range_line r @ week_52_line r @ volume_line r @
     [source_footer r]"

definition fmt_price :: "scrape_response \<Rightarrow> pystr" where
  "fmt_price r = py_join NL (price_lines r)"

subsection \<open>Detailed analysis\<close>

text \<open>One entry of the fundamentals block: shown when the attribute is truthy.\<close>

definition fund_entry :: "pyfloat option \<Rightarrow> (pyfloat \<Rightarrow> pystr) \<Rightarrow> pystr list" where
  "fund_entry x render = (case x of None \<Rightarrow> [] | Some v \<Rightarrow> if float_truthy v then [render v] else [])"

text \<open>Lines 131 to 139: banner, title, banner, then sector and description if any.\<close>

definition banner :: pystr where
  "banner = replicate 60 61"

definition title_lines :: "scrape_response \<Rightarrow> pystr list" where
  "title_lines r =
     (let name = str_or (company_name r) (symbol r)
      in [banner, symbol r @ lit ''  '' @ EM_DASH @ lit ''  '' @ name, banner])"

definition sector_line :: "scrape_response \<Rightarrow> pystr list" where
  "sector_line r =
     (if str_present (sector r) \<or> str_present (industry r)
      then [lit ''Sector: '' @ str_or (sector r) (lit ''N/A'') @ SEP @ lit ''Industry: '' @
            str_or (industry r) (lit ''N/A'')]
      else [])"

definition description_line :: "scrape_response \<Rightarrow> pystr list" where
  "description_line r =
     (case description r of
        None \<Rightarrow> []
      | Some d \<Rightarrow> if d \<noteq> [] then [NL @ lit ''Business: '' @ py_strip d] else [])"

definition section_title :: "string \<Rightarrow> pystr" where
  "section_title t = NL @ BOX_H @ BOX_H @ lit '' '' @ lit t @ lit '' '' @ BOX_H @ BOX_H"

text \<open>Lines 142 and 143.\<close>

definition price_block :: "scrape_response \<Rightarrow> pystr list" where
  "price_block r = [section_title ''PRICE'', fmt_price r]"

text \<open>Lines 146 to 171: the list \<open>fund\<close>.\<close>

definition fund :: "scrape_response \<Rightarrow> pystr list" where
  "fund r =
     fund_entry (market_cap r)
       (\<lambda>v. let cr = div1e7 v in lit ''Market Cap: '' @ RUPEE @ fmt_fixed True 0 cr @ lit '' Cr'') @
     fund_entry (pe_ratio r) (\<lambda>v. lit ''P/E (TTM): '' @ fmt_fixed False 1 v) @
     fund_entry (forward_pe r) (\<lambda>v. lit ''Forward P/E: '' @ fmt_fixed False 1 v) @
     fund_entry (eps r) (\<lambda>v. lit ''EPS (TTM): '' @ RUPEE @ fmt_fixed False 2 v) @
     fund_entry (book_value r) (\<lambda>v. lit ''Book Value: '' @ RUPEE @ fmt_fixed False 2 v) @
     fund_entry (price_to_book r) (\<lambda>v. lit ''P/B Ratio: '' @ fmt_fixed False 2 v @ lit ''x'') @
     fund_entry (dividend_yield r)
       (\<lambda>v. lit ''Dividend Yield: '' @ fmt_fixed False 2 (times100 v) @ lit ''%'') @
     fund_entry (beta r) (\<lambda>v. lit ''Beta: '' @ fmt_fixed False 2 v) @
     fund_entry (roe r) (\<lambda>v. lit ''ROE: '' @ fmt_fixed False 1 (times100 v) @ lit ''%'') @
     fund_entry (profit_margin r)
       (\<lambda>v. lit ''Net Margin: '' @ fmt_fixed False 1 (times100 v) @ lit ''%'') @
     fund_entry (debt_to_equity r) (\<lambda>v. lit ''D/E Ratio: '' @ fmt_fixed False 2 v) @
     fund_entry (current_ratio r) (\<lambda>v. lit ''Current Ratio: '' @ fmt_fixed False 2 v)"

text \<open>Lines 172 to 174.\<close>

definition fund_block :: "scrape_response \<Rightarrow> pystr list" where
  "fund_block r = (if fund r \<noteq> [] then section_title ''FUNDAMENTALS'' # fund r else [])"

text \<open>Lines 178 to 180: the consensus line.\<close>

definition consensus_line :: "(nat \<Rightarrow> pystr) \<Rightarrow> scrape_response \<Rightarrow> pystr list" where
  "consensus_line uc r =
     (case recommendation r of
        None \<Rightarrow> []
      | Some rec \<Rightarrow>
          if rec \<noteq> [] then
            let count =
                  (case analyst_count r of
                     None \<Rightarrow> []
                   | Some n \<Rightarrow>
                       if n \<noteq> 0 then lit '' ('' @ py_str_int n @ lit '' analysts)'' else [])
            in [lit ''Consensus: '' @ py_upper uc rec @ count]
          else [])"

text \<open>
  Lines 181 to 186: the price targets. The test is on the mean target alone; the three
  targets are then formatted in turn, and formatting one that is \<open>None\<close> raises.
\<close>

definition targets_line :: "scrape_response \<Rightarrow> pyerror + pystr list" where
  "targets_line r =
     (if float_present (target_mean_price r) then
        (case fmt_fixed_opt True 2 (target_mean_price r) of
           Inl e \<Rightarrow> Inl e
         | Inr m \<Rightarrow>
             (case fmt_fixed_opt True 2 (target_high_price r) of
                Inl e \<Rightarrow> Inl e
              | Inr h \<Rightarrow>
                  (case fmt_fixed_opt True 2 (target_low_price r) of
                     Inl e \<Rightarrow> Inl e
                   | Inr l \<Rightarrow>
                       Inr [lit ''Price Targets:  Mean '' @ RUPEE @ m @ SEP @ lit ''High '' @
                            RUPEE @ h @ SEP @ lit ''Low '' @ RUPEE @ l])))
      else Inr [])"

text \<open>Lines 177 to 189: the list \<open>analyst\<close> and the block made of it.\<close>

definition analyst :: "(nat \<Rightarrow> pystr) \<Rightarrow> scrape_response \<Rightarrow> pyerror + pystr list" where
  "analyst uc r =
     (case targets_line r of Inl e \<Rightarrow> Inl e | Inr t \<Rightarrow> Inr (consensus_line uc r @ t))"

definition analyst_block :: "pystr list \<Rightarrow> pystr list" where
  "analyst_block a = (if a \<noteq> [] then section_title ''ANALYST VIEW'' # a else [])"

text \<open>
  Lines 194 to 197: the loop over \<open>enumerate(r.news[:5], 1)\<close>, by recursion on the items
  with the running number \<open>i\<close>.
\<close>

fun news_entries :: "int \<Rightarrow> news_item list \<Rightarrow> pystr list" where
  "news_entries i [] = []"
| "news_entries i (item # rest) =
     (let pub_date =
            (case published_at item of
               None \<Rightarrow> lit ''N/A''
             | Some t \<Rightarrow> if t \<noteq> [] then take 10 t else lit ''N/A'')
      in [py_str_int i @ lit ''. '' @ title item,
          lit ''   '' @ publisher item @ SEP @ pub_date @ SEP @ link item]
         @ news_entries (i + 1) rest)"

text \<open>Lines 192 to 197.\<close>

definition news_block :: "scrape_response \<Rightarrow> pystr list" where
  "news_block r =
     (if news r \<noteq> [] then section_title ''RECENT NEWS'' # news_entries 1 (take 5 (news r))
      else [])"

text \<open>The list \<open>sections\<close> when \<open>_fmt_analysis\<close> returns, and the function itself.\<close>

definition analysis_sections :: "(nat \<Rightarrow> pystr) \<Rightarrow> scrape_response \<Rightarrow> pyerror + pystr list" where
  "analysis_sections uc r =
     (case analyst uc r of
        Inl e \<Rightarrow> Inl e
      | Inr a \<Rightarrow>
          Inr (title_lines r @ sector_line r @ description_line r @ price_block r @
               fund_block r @ analyst_block a @ news_block r @ [NL @ source_footer r]))"

definition fmt_analysis :: "(nat \<Rightarrow> pystr) \<Rightarrow> scrape_response \<Rightarrow> pyerror + pystr" where
  "fmt_analysis uc r =
     (case analysis_sections uc r of Inl e \<Rightarrow> Inl e | Inr sections \<Rightarrow> Inr (py_join NL sections))"

section \<open>The tool registry\<close>

record tool =
  name :: pystr
  tool_description :: pystr
  inputSchema :: jsonval

text \<open>The schema of a tool with one required string parameter.\<close>

definition string_param_schema :: "pystr \<Rightarrow> pystr \<Rightarrow> jsonval" where
  "string_param_schema param doc =
     JDict [(lit ''type'', JStr (lit ''object'')),
            (lit ''properties'',
               JDict [(param, JDict [(lit ''type'', JStr (lit ''string'')),
                                     (lit ''description'', JStr doc)])]),
            (lit ''required'', JList [JStr param])]"

definition TOOLS :: "tool list" where
  "TOOLS =
     [\<lparr>name = lit ''get_stock_price'',
       tool_description =
         lit ''Get the current market price and basic trading stats for an NSE-listed stock. '' @
         lit ''Returns price, day high/low, 52-week range, volume, and moving averages. '' @
         lit ''Use this for quick price checks.'',
       inputSchema =
         string_param_schema (lit ''symbol'')
           (lit ''NSE stock symbol (e.g. 'TCS', 'RELIANCE', 'HDFCBANK'). '' @
            lit ''Do NOT add .NS '' @ EM_DASH @ lit '' it is added automatically.'')\<rparr>,
      \<lparr>name = lit ''get_stock_analysis'',
       tool_description =
         lit ''Get a comprehensive stock analysis for an NSE-listed company. '' @
         lit ''Includes price data, fundamentals (P/E, EPS, market cap, ROE, D/E, margins), '' @
         lit ''analyst consensus (rating + price targets), and the 5 most recent news headlines. '' @
         lit ''Use this when the user asks for a full stock overview or research.'',
       inputSchema =
         string_param_schema (lit ''symbol'')
           (lit ''NSE stock symbol (e.g. 'TCS', 'RELIANCE', 'HDFCBANK').'')\<rparr>,
      \<lparr>name = lit ''scrape_url'',
       tool_description =
         lit ''Fetch any public web URL and return clean plain-text content, '' @
         lit ''with all HTML tags, scripts, ads, and navigation stripped out. '' @
         lit ''Useful for reading financial news articles, analyst reports, '' @
         lit ''NSE/BSE announcements, or any web page the user provides.'',
       inputSchema =
         string_param_schema (lit ''url'')
           (lit ''Fully-qualified URL to fetch, e.g. 'https://www.moneycontrol.com/...'' @ QUOTE)\<rparr>]"

section \<open>The dispatcher\<close>

text \<open>
  Modelled from the spec: the two collaborators that \<^verbatim>\<open>tools.py\<close> imports, the market
  scraper's \<open>scrape_one\<close> and the web scraper's \<open>scrape_url\<close>; both report a failure in
  what they return. \<open>call_tool\<close> awaits at most one of them, once, so each is a function
  from its arguments to what that call returns. The calls made are recorded, in order,
  next to the outcome.
\<close>

record collaborators =
  scrape_one :: "pystr \<Rightarrow> bool \<Rightarrow> bool \<Rightarrow> scrape_response"
  scrape_url :: "pystr \<Rightarrow> pystr"

datatype collab_call =
    ScrapeOne pystr bool bool
  | ScrapeUrl pystr

definition SYMBOL_REQUIRED :: pystr where
  "SYMBOL_REQUIRED = lit ''Error: 'symbol' parameter is required.''"

definition URL_REQUIRED :: pystr where
  "URL_REQUIRED = lit ''Error: 'url' parameter is required.''"

text \<open>The message of the \<open>ValueError\<close> raised for a name that is not dispatched.\<close>

definition unknown_tool_message :: "pystr \<Rightarrow> pystr" where
  "unknown_tool_message nm =
     (let available = map name TOOLS
      in lit ''Unknown tool: '' @ QUOTE @ nm @ QUOTE @ lit ''. Available tools: '' @
         py_str_list available)"

text \<open>
  \<open>call_tool\<close>: the outcome (the text returned, or the exception raised) and the calls
  made to the collaborators. \<open>uc\<close> is the upper-case table of \<open>py_upper\<close>.
\<close>

definition call_tool ::
  "(nat \<Rightarrow> pystr) \<Rightarrow> collaborators \<Rightarrow> pystr \<Rightarrow> (pystr \<rightharpoonup> jsonval) \<Rightarrow>
   (pyerror + pystr) \<times> collab_call list" where
  "call_tool uc C nm arguments =
     (if nm = lit ''get_stock_price'' then
        (case stripped_arg arguments (lit ''symbol'') of
           Inl e \<Rightarrow> (Inl e, [])
         | Inr s \<Rightarrow>
             let symbol = py_upper uc s in
             if symbol = [] then (Inr SYMBOL_REQUIRED, [])
             else
               let result = scrape_one C symbol False False;
                   calls = [ScrapeOne symbol False False]
               in if \<not> scraped_ok result
                  then (Inr (lit ''Could not fetch price for '' @ symbol @ lit '': '' @
                             py_str_opt (error result)), calls)
                  else (Inr (fmt_price result), calls))
      else if nm = lit ''get_stock_analysis'' then
        (case stripped_arg arguments (lit ''symbol'') of
           Inl e \<Rightarrow> (Inl e, [])
         | Inr s \<Rightarrow>
             let symbol = py_upper uc s in
             if symbol = [] then (Inr SYMBOL_REQUIRED, [])
             else
               let result = scrape_one C symbol True True;
                   calls = [ScrapeOne symbol True True]
               in if \<not> scraped_ok result
                  then (Inr (lit ''Could not fetch analysis for '' @ symbol @ lit '': '' @
                             py_str_opt (error result)), calls)
                  else (fmt_analysis uc result, calls))
      else if nm = lit ''scrape_url'' then
        (case stripped_arg arguments (lit ''url'') of
           Inl e \<Rightarrow> (Inl e, [])
         | Inr url \<Rightarrow>
             if url = [] then (Inr URL_REQUIRED, [])
             else (Inr (scrape_url C url), [ScrapeUrl url]))
      else (Inl (ValueError (unknown_tool_message nm)), []))"

section \<open>Notions used to state the properties\<close>

text \<open>
  A required argument is blank when its key is missing, or bound to a string that is
  empty or made of white space only.
\<close>

definition blank_arg :: "(pystr \<rightharpoonup> jsonval) \<Rightarrow> pystr \<Rightarrow> bool" where
  "blank_arg arguments key =
     (case arguments key of
        None \<Rightarrow> True
      | Some (JStr s) \<Rightarrow> list_all py_isspace s
      | Some _ \<Rightarrow> False)"

text \<open>
  A response with every optional attribute absent, collaborators that answer every call
  with a given response, and the upper-case table that leaves every code point beyond
  ASCII alone: the concrete inputs on which the properties are instantiated.
\<close>

definition empty_response :: scrape_response where
  "empty_response =
     \<lparr>symbol = lit ''TCS'', company_name = None, sector = None, industry = None,
      description = None, price = None, change = None, change_pct = None, day_low = None,
      day_high = None, prev_close = None, week_52_low = None, week_52_high = None,
      volume = None, ma_50 = None, ma_200 = None, market_cap = None, pe_ratio = None,
      forward_pe = None, eps = None, book_value = None, price_to_book = None,
      dividend_yield = None, beta = None, roe = None, profit_margin = None,
      debt_to_equity = None, current_ratio = None, recommendation = None,
      analyst_count = None, target_mean_price = None, target_high_price = None,
      target_low_price = None, news = [], scraped_ok = True, error = None,
      timestamp = lit ''2024-05-17T10:15:30.123456+05:30''\<rparr>"

definition fixed_collaborators :: "scrape_response \<Rightarrow> collaborators" where
  "fixed_collaborators r = \<lparr>scrape_one = (\<lambda>s n f. r), scrape_url = (\<lambda>u. lit ''page text'')\<rparr>"

definition ascii_only :: "nat \<Rightarrow> pystr" where
  "ascii_only c = [c]"

text \<open>
  The optional numeric attributes that the formatters test by truthiness, and a response
  with one of them replaced: by the integer or float given, whichever the attribute holds.
\<close>

datatype zero_field =
    Volume | MA50 | MA200 | PrevClose | MarketCap | PERatio | ForwardPE | EPS | BookValue
  | PriceToBook | DividendYield | Beta | ROE | ProfitMargin | DebtToEquity | CurrentRatio





text \<open>
  What one entry of the news block shows: \<open>entries\<close> are the lines after the heading, two
  per item; entry \<open>k\<close> (from 0) is numbered \<open>k + 1\<close> and shows the title, then the
  publisher, the date and the link of the item. The date is the first ten characters of
  the time stamp, or \<open>N/A\<close> when there is none (an empty time stamp, which is no time
  stamp, counts as none).
\<close>

definition entry_shows :: "pystr list \<Rightarrow> nat \<Rightarrow> news_item \<Rightarrow> bool" where
  "entry_shows entries k item \<longleftrightarrow>
     entries ! (2 * k) = py_str_int (int k + 1) @ lit ''. '' @ title item \<and>
     (published_at item = None \<longrightarrow>
        entries ! (2 * k + 1) =
          lit ''   '' @ publisher item @ SEP @ lit ''N/A'' @ SEP @ link item) \<and>
     (\<forall>t. published_at item = Some t \<and> t \<noteq> [] \<longrightarrow>
        entries ! (2 * k + 1) =
          lit ''   '' @ publisher item @ SEP @ take 10 t @ SEP @ link item) \<and>
     (published_at item = Some [] \<longrightarrow>
        entries ! (2 * k + 1) =
          lit ''   '' @ publisher item @ SEP @ lit ''N/A'' @ SEP @ link item)"

text \<open>Six news items, one more than the block shows.\<close>

definition six_news :: "news_item list" where
  "six_news =
     [\<lparr>title = lit ''Q4 results'', publisher = lit ''Mint'',
       published_at = Some (lit ''2024-05-16T08:00:00Z''), link = lit ''https://a.example/1''\<rparr>,
      \<lparr>title = lit ''Dividend declared'', publisher = lit ''ET'', published_at = None,
       link = lit ''https://a.example/2''\<rparr>,
      \<lparr>title = lit ''New contract'', publisher = lit ''BS'', published_at = Some [],
       link = lit ''https://a.example/3''\<rparr>,
      \<lparr>title = lit ''Buyback'', publisher = lit ''Mint'',
       published_at = Some (lit ''2024-05-13''), link = lit ''https://a.example/4''\<rparr>,
      \<lparr>title = lit ''Hiring plan'', publisher = lit ''ET'',
       published_at = Some (lit ''2024-05-12T09:30:00Z''), link = lit ''https://a.example/5''\<rparr>,
      \<lparr>title = lit ''Sixth story'', publisher = lit ''BS'',
       published_at = Some (lit ''2024-05-11T09:30:00Z''), link = lit ''https://a.example/6''\<rparr>]"

text \<open>
  The response of the price-line example: symbol \<open>TCS\<close>, price 3500.00, change 12.5 and
  the given percent change, on top of any response; and one such response with every
  attribute of the concise layout filled in.
\<close>

definition tcs_quote :: "pyfloat \<Rightarrow> scrape_response \<Rightarrow> scrape_response" where
  "tcs_quote pct r =
     r\<lparr>symbol := lit ''TCS'', price := Some (Fin 3500), change := Some (Fin (25 / 2)),
       change_pct := Some pct\<rparr>"

definition tcs_full :: scrape_response where
  "tcs_full =
     tcs_quote (Fin (3242591731706757 / 9007199254740992))
       (empty_response
          \<lparr>company_name := Some (lit ''Tata Consultancy Services''),
           day_low := Some (Fin 3480), day_high := Some (Fin (7021 / 2)),
           prev_close := Some (Fin (6975 / 2)), week_52_low := Some (Fin 3056),
           week_52_high := Some (Fin 4255), volume := Some 1234567,
           ma_50 := Some (Fin (13841 / 4)), ma_200 := Some (Fin 3688)\<rparr>)"



section \<open>Properties of the dispatcher\<close>

subsection \<open>Auxiliary facts\<close>

lemma floor_rat_numeral_div: "\<lfloor>numeral a / numeral b :: rat\<rfloor> = numeral a div numeral b"
  by (metis floor_divide_of_int_eq of_int_numeral)

lemma tool_names:
  "map name TOOLS = [lit ''get_stock_price'', lit ''get_stock_analysis'', lit ''scrape_url'']"
  by (simp add: TOOLS_def)

lemma registry_names_text:
  "py_str_list [lit ''get_stock_price'', lit ''get_stock_analysis'', lit ''scrape_url''] =
   lit ''['get_stock_price', 'get_stock_analysis', 'scrape_url']''"
  by (simp add: py_str_list_def py_repr_str_def repr_char_def lit_def)

lemma strip_all_space: "list_all py_isspace s \<Longrightarrow> py_strip s = []"
  proof -
  assume "list_all py_isspace s"
  then have d: "dropWhile py_isspace s = []" unfolding list_all_iff dropWhile_eq_Nil_conv .
  show ?thesis unfolding py_strip_def d by simp
qed

lemma py_upper_Nil: "py_upper uc [] = []"
  by (simp add: py_upper_def)

lemma stripped_blank:
  "blank_arg arguments key \<Longrightarrow> stripped_arg arguments key = Inr []"
  by (auto simp: blank_arg_def stripped_arg_def dict_get_def py_or_def strip_all_space
      split: option.splits jsonval.splits)

lemma stripped_str:
  "arguments key = Some (JStr raw) \<Longrightarrow> stripped_arg arguments key = Inr (py_strip raw)"
  by (cases "raw = []") (simp_all add: stripped_arg_def dict_get_def py_or_def py_strip_def)

lemma py_upper_eq_Nil: "(\<And>c. uc c \<noteq> []) \<Longrightarrow> py_upper uc s = [] \<longleftrightarrow> s = []"
  by (cases s) (auto simp: py_upper_def)

lemma strip_tcs: "py_strip (lit '' tcs '') = lit ''tcs''"
  by (simp add: py_strip_def lit_def py_isspace_def)

lemma upper_tcs: "py_upper uc (lit ''tcs'') = lit ''TCS''"
  by (simp add: py_upper_def lit_def)

lemma strip_TCS: "py_strip (lit ''TCS'') = lit ''TCS''"
  by (simp add: py_strip_def lit_def py_isspace_def)

lemma upper_TCS: "py_upper uc (lit ''TCS'') = lit ''TCS''"
  by (simp add: py_upper_def lit_def)

lemma tool_name_distinct:
  "lit ''get_stock_analysis'' \<noteq> lit ''get_stock_price''"
  "lit ''scrape_url'' \<noteq> lit ''get_stock_price''"
  "lit ''scrape_url'' \<noteq> lit ''get_stock_analysis''"
  by (simp_all add: lit_def)

lemma call_price_failed:
  assumes "stripped_arg arguments (lit ''symbol'') = Inr s" and "py_upper uc s \<noteq> []"
    and "\<not> scraped_ok (scrape_one C (py_upper uc s) False False)"
  shows "call_tool uc C (lit ''get_stock_price'') arguments =
           (Inr (lit ''Could not fetch price for '' @ py_upper uc s @ lit '': '' @
                 py_str_opt (error (scrape_one C (py_upper uc s) False False))),
            [ScrapeOne (py_upper uc s) False False])"
  using assms by (simp add: call_tool_def Let_def)

lemma call_price_calls:
  assumes "stripped_arg arguments (lit ''symbol'') = Inr s" and "py_upper uc s \<noteq> []"
  shows "snd (call_tool uc C (lit ''get_stock_price'') arguments) =
           [ScrapeOne (py_upper uc s) False False]"
  using assms by (simp add: call_tool_def Let_def)

lemma call_analysis_calls:
  assumes "stripped_arg arguments (lit ''symbol'') = Inr s" and "py_upper uc s \<noteq> []"
  shows "snd (call_tool uc C (lit ''get_stock_analysis'') arguments) =
           [ScrapeOne (py_upper uc s) True True]"
  using assms by (simp add: call_tool_def Let_def tool_name_distinct)

lemma lit_nonempty: "lit ''TCS'' \<noteq> []" "lit ''INFY'' \<noteq> []"
  by (simp_all add: lit_def)

lemma lit_append: "lit a @ lit b = lit (a @ b)"
  by (simp add: lit_def)

subsection \<open>Unknown tools\<close>

text \<open>
  Claim C2. For every tool name other than \<open>get_stock_price\<close>, \<open>get_stock_analysis\<close> and
  \<open>scrape_url\<close>, \<open>call_tool\<close> raises: the outcome is a \<open>ValueError\<close>, not a text, no
  collaborator is called, and the message lists the names of the registry, which are
  exactly these three, in the order of the registry.
\<close>

theorem unknown_tool_raises:
  assumes "nm \<noteq> lit ''get_stock_price''" and "nm \<noteq> lit ''get_stock_analysis''"
    and "nm \<noteq> lit ''scrape_url''"
  shows "call_tool uc C nm arguments =
           (Inl (ValueError (lit ''Unknown tool: '' @ QUOTE @ nm @ QUOTE @ lit ''. Available tools: '' @
              lit ''['get_stock_price', 'get_stock_analysis', 'scrape_url']'')), []) \<and>
         map name TOOLS = [lit ''get_stock_price'', lit ''get_stock_analysis'', lit ''scrape_url'']"
  using assms
  by (simp add: call_tool_def unknown_tool_message_def tool_names registry_names_text)

theorem unknown_tool_raises_witness:
  "call_tool ascii_only (fixed_collaborators empty_response) (lit ''get_price'') Map.empty =
     (Inl (ValueError (lit ''Unknown tool: 'get_price'. Available tools: '' @
        lit ''['get_stock_price', 'get_stock_analysis', 'scrape_url']'')), [])"
  using unknown_tool_raises [of "lit ''get_price''" ascii_only "fixed_collaborators empty_response"
      Map.empty]
  by (simp add: lit_def QUOTE_def)

subsection \<open>Missing arguments\<close>

text \<open>
  Claim C3. When the required argument is absent, empty or white space only, \<open>call_tool\<close>
  returns the literal text \<open>Error: 'symbol' parameter is required.\<close> for the two stock
  tools and \<open>Error: 'url' parameter is required.\<close> for \<open>scrape_url\<close>, and the list of
  collaborator calls is empty.
\<close>

theorem missing_argument_text:
  "(blank_arg arguments (lit ''symbol'') \<longrightarrow>
      call_tool uc C (lit ''get_stock_price'') arguments =
        (Inr (lit ''Error: 'symbol' parameter is required.''), []) \<and>
      call_tool uc C (lit ''get_stock_analysis'') arguments =
        (Inr (lit ''Error: 'symbol' parameter is required.''), [])) \<and>
   (blank_arg arguments (lit ''url'') \<longrightarrow>
      call_tool uc C (lit ''scrape_url'') arguments =
        (Inr (lit ''Error: 'url' parameter is required.''), []))"
  by (simp add: call_tool_def stripped_blank py_upper_Nil SYMBOL_REQUIRED_def URL_REQUIRED_def lit_def)

theorem missing_argument_text_witness:
  "call_tool ascii_only (fixed_collaborators empty_response) (lit ''get_stock_price'')
       [lit ''symbol'' \<mapsto> JStr (lit ''   '')] =
     (Inr (lit ''Error: 'symbol' parameter is required.''), []) \<and>
   call_tool ascii_only (fixed_collaborators empty_response) (lit ''get_stock_analysis'')
       [lit ''symbol'' \<mapsto> JStr (lit ''   '')] =
     (Inr (lit ''Error: 'symbol' parameter is required.''), []) \<and>
   call_tool ascii_only (fixed_collaborators empty_response) (lit ''scrape_url'')
       [lit ''symbol'' \<mapsto> JStr (lit ''   '')] =
     (Inr (lit ''Error: 'url' parameter is required.''), [])"
proof -
  have s: "blank_arg [lit ''symbol'' \<mapsto> JStr (lit ''   '')] (lit ''symbol'')"
    by (simp add: blank_arg_def lit_def py_isspace_def)
  have u: "blank_arg [lit ''symbol'' \<mapsto> JStr (lit ''   '')] (lit ''url'')"
    by (simp add: blank_arg_def lit_def)
  show ?thesis
    using s u missing_argument_text [of "[lit ''symbol'' \<mapsto> JStr (lit ''   '')]" ascii_only
        "fixed_collaborators empty_response"]
    by blast
qed

text \<open>
  Claim C10. A required argument bound to \<open>None\<close> does not make \<open>call_tool\<close> fail: the
  outcome and the calls are those of the same mapping without the key, for every tool
  name, and for the three tools the outcome is the required-parameter text.
\<close>

theorem null_argument_like_absent:
  "call_tool uc C nm (arguments(key \<mapsto> JNull)) = call_tool uc C nm (arguments(key := None)) \<and>
   call_tool uc C (lit ''get_stock_price'') (arguments(lit ''symbol'' \<mapsto> JNull)) =
     (Inr (lit ''Error: 'symbol' parameter is required.''), []) \<and>
   call_tool uc C (lit ''get_stock_analysis'') (arguments(lit ''symbol'' \<mapsto> JNull)) =
     (Inr (lit ''Error: 'symbol' parameter is required.''), []) \<and>
   call_tool uc C (lit ''scrape_url'') (arguments(lit ''url'' \<mapsto> JNull)) =
     (Inr (lit ''Error: 'url' parameter is required.''), [])"
proof -
  have same: "stripped_arg (arguments(key \<mapsto> JNull)) k = stripped_arg (arguments(key := None)) k" for k
    by (simp add: stripped_arg_def dict_get_def)
  have nul: "stripped_arg (arguments(k \<mapsto> JNull)) k = Inr []" for k
    by (simp add: stripped_arg_def dict_get_def py_or_def py_strip_def)
  have "call_tool uc C nm (arguments(key \<mapsto> JNull)) = call_tool uc C nm (arguments(key := None))"
    unfolding call_tool_def same ..
  moreover have "call_tool uc C (lit ''get_stock_price'') (arguments(lit ''symbol'' \<mapsto> JNull)) =
     (Inr (lit ''Error: 'symbol' parameter is required.''), [])"
    by (simp add: call_tool_def nul py_upper_Nil SYMBOL_REQUIRED_def)
  moreover have "call_tool uc C (lit ''get_stock_analysis'') (arguments(lit ''symbol'' \<mapsto> JNull)) =
     (Inr (lit ''Error: 'symbol' parameter is required.''), [])"
    by (simp add: call_tool_def nul py_upper_Nil SYMBOL_REQUIRED_def lit_def)
  moreover have "call_tool uc C (lit ''scrape_url'') (arguments(lit ''url'' \<mapsto> JNull)) =
     (Inr (lit ''Error: 'url' parameter is required.''), [])"
    by (simp add: call_tool_def nul URL_REQUIRED_def lit_def)
  ultimately show ?thesis by blast
qed

subsection \<open>Fetch failures and symbol normalisation\<close>

text \<open>
  Claim C4. When the response of the market scraper has \<open>scraped_ok\<close> false,
  \<open>get_stock_price\<close> returns, as a text, \<open>Could not fetch price for {symbol}: {error}\<close>,
  where \<open>symbol\<close> is the stripped, upper-cased argument and \<open>error\<close> the response's error
  attribute as \<open>str\<close> prints it. For the argument \<open>TCS\<close> and the error \<open>rate limited\<close> the
  text is \<open>Could not fetch price for TCS: rate limited\<close>.
\<close>

theorem fetch_failure_text:
  "(arguments (lit ''symbol'') = Some (JStr raw) \<and> smb = py_upper uc (py_strip raw) \<and> smb \<noteq> [] \<and>
    \<not> scraped_ok (scrape_one C smb False False) \<longrightarrow>
      call_tool uc C (lit ''get_stock_price'') arguments =
        (Inr (lit ''Could not fetch price for '' @ smb @ lit '': '' @
              py_str_opt (error (scrape_one C smb False False))),
         [ScrapeOne smb False False])) \<and>
   call_tool uc
       (C\<lparr>scrape_one := \<lambda>s n f. r\<lparr>scraped_ok := False, error := Some (lit ''rate limited'')\<rparr>\<rparr>)
       (lit ''get_stock_price'') [lit ''symbol'' \<mapsto> JStr (lit ''TCS'')] =
     (Inr (lit ''Could not fetch price for TCS: rate limited''), [ScrapeOne (lit ''TCS'') False False])"
proof (intro conjI impI)
  assume a: "arguments (lit ''symbol'') = Some (JStr raw) \<and> smb = py_upper uc (py_strip raw) \<and>
    smb \<noteq> [] \<and> \<not> scraped_ok (scrape_one C smb False False)"
  then have "stripped_arg arguments (lit ''symbol'') = Inr (py_strip raw)"
    by (simp add: stripped_str)
  then show "call_tool uc C (lit ''get_stock_price'') arguments =
        (Inr (lit ''Could not fetch price for '' @ smb @ lit '': '' @
              py_str_opt (error (scrape_one C smb False False))),
         [ScrapeOne smb False False])"
    using a call_price_failed [of arguments "py_strip raw" uc C] by blast
next
  let ?C = "C\<lparr>scrape_one := \<lambda>s n f. r\<lparr>scraped_ok := False, error := Some (lit ''rate limited'')\<rparr>\<rparr>"
  let ?a = "[lit ''symbol'' \<mapsto> JStr (lit ''TCS'')]"
  have "stripped_arg ?a (lit ''symbol'') = Inr (lit ''TCS'')"
    by (simp add: stripped_str strip_TCS)
  then have "call_tool uc ?C (lit ''get_stock_price'') ?a =
     (Inr (lit ''Could not fetch price for '' @ lit ''TCS'' @ lit '': '' @ lit ''rate limited''),
      [ScrapeOne (lit ''TCS'') False False])"
    using call_price_failed [of ?a "lit ''TCS''" uc ?C]
    by (simp add: upper_TCS lit_nonempty py_str_opt_def)
  then show "call_tool uc ?C (lit ''get_stock_price'') ?a =
     (Inr (lit ''Could not fetch price for TCS: rate limited''), [ScrapeOne (lit ''TCS'') False False])"
    by (simp add: lit_append)
qed

theorem fetch_failure_text_witness:
  "call_tool ascii_only
       (fixed_collaborators (empty_response\<lparr>scraped_ok := False, error := Some (lit ''timeout'')\<rparr>))
       (lit ''get_stock_price'') [lit ''symbol'' \<mapsto> JStr (lit '' tcs '')] =
     (Inr (lit ''Could not fetch price for TCS: timeout''), [ScrapeOne (lit ''TCS'') False False])"
proof -
  let ?C = "fixed_collaborators (empty_response\<lparr>scraped_ok := False, error := Some (lit ''timeout'')\<rparr>)"
  let ?a = "[lit ''symbol'' \<mapsto> JStr (lit '' tcs '')]"
  have h: "?a (lit ''symbol'') = Some (JStr (lit '' tcs '')) \<and>
      lit ''TCS'' = py_upper ascii_only (py_strip (lit '' tcs '')) \<and> lit ''TCS'' \<noteq> [] \<and>
      \<not> scraped_ok (scrape_one ?C (lit ''TCS'') False False)"
    by (simp add: strip_tcs upper_tcs fixed_collaborators_def lit_nonempty)
  have e: "py_str_opt (error (scrape_one ?C (lit ''TCS'') False False)) = lit ''timeout''"
    by (simp add: fixed_collaborators_def py_str_opt_def)
  have "call_tool ascii_only ?C (lit ''get_stock_price'') ?a =
        (Inr (lit ''Could not fetch price for '' @ lit ''TCS'' @ lit '': '' @
              py_str_opt (error (scrape_one ?C (lit ''TCS'') False False))),
         [ScrapeOne (lit ''TCS'') False False])"
    using h fetch_failure_text [where arguments = ?a and raw = "lit '' tcs ''" and smb = "lit ''TCS''"
        and uc = ascii_only and C = ?C]
    by blast
  then show ?thesis
    by (simp add: e lit_append)
qed

text \<open>
  Claim C8. When the symbol argument is a string that is not empty once stripped, the two
  stock tools call the market scraper, once, with the stripped and upper-cased symbol
  (upper-casing never deletes a character); for the argument \<open>" tcs "\<close> the scraper is
  called with \<open>TCS\<close>.
\<close>

theorem symbol_normalised:
  "(arguments (lit ''symbol'') = Some (JStr raw) \<and> py_strip raw \<noteq> [] \<and> (\<forall>c. uc c \<noteq> []) \<longrightarrow>
      snd (call_tool uc C (lit ''get_stock_price'') arguments) =
        [ScrapeOne (py_upper uc (py_strip raw)) False False] \<and>
      snd (call_tool uc C (lit ''get_stock_analysis'') arguments) =
        [ScrapeOne (py_upper uc (py_strip raw)) True True]) \<and>
   snd (call_tool uc C (lit ''get_stock_price'') [lit ''symbol'' \<mapsto> JStr (lit '' tcs '')]) =
     [ScrapeOne (lit ''TCS'') False False]"
proof (intro conjI impI)
  assume a: "arguments (lit ''symbol'') = Some (JStr raw) \<and> py_strip raw \<noteq> [] \<and> (\<forall>c. uc c \<noteq> [])"
  then have s: "stripped_arg arguments (lit ''symbol'') = Inr (py_strip raw)"
    by (simp add: stripped_str)
  have ne: "py_upper uc (py_strip raw) \<noteq> []"
    using a by (simp add: py_upper_eq_Nil)
  show "snd (call_tool uc C (lit ''get_stock_price'') arguments) =
        [ScrapeOne (py_upper uc (py_strip raw)) False False]"
    using s ne by (rule call_price_calls)
  show "snd (call_tool uc C (lit ''get_stock_analysis'') arguments) =
        [ScrapeOne (py_upper uc (py_strip raw)) True True]"
    using s ne by (rule call_analysis_calls)
next
  let ?a = "[lit ''symbol'' \<mapsto> JStr (lit '' tcs '')]"
  have "stripped_arg ?a (lit ''symbol'') = Inr (lit ''tcs'')"
    by (simp add: stripped_str strip_tcs)
  then show "snd (call_tool uc C (lit ''get_stock_price'') ?a) = [ScrapeOne (lit ''TCS'') False False]"
    using call_price_calls [of ?a "lit ''tcs''" uc C] by (simp add: upper_tcs lit_nonempty)
qed

theorem symbol_normalised_witness:
  "snd (call_tool ascii_only (fixed_collaborators empty_response) (lit ''get_stock_price'')
          [lit ''symbol'' \<mapsto> JStr (lit ''  infy'')]) = [ScrapeOne (lit ''INFY'') False False] \<and>
   snd (call_tool ascii_only (fixed_collaborators empty_response) (lit ''get_stock_analysis'')
          [lit ''symbol'' \<mapsto> JStr (lit ''  infy'')]) = [ScrapeOne (lit ''INFY'') True True]"
proof -
  let ?a = "[lit ''symbol'' \<mapsto> JStr (lit ''  infy'')]"
  have s: "py_strip (lit ''  infy'') = lit ''infy''"
    by (simp add: py_strip_def lit_def py_isspace_def)
  have u: "py_upper ascii_only (lit ''infy'') = lit ''INFY''"
    by (simp add: py_upper_def lit_def)
  have n: "lit ''infy'' \<noteq> []"
    by (simp add: lit_def)
  have h: "?a (lit ''symbol'') = Some (JStr (lit ''  infy'')) \<and> py_strip (lit ''  infy'') \<noteq> [] \<and>
      (\<forall>c. ascii_only c \<noteq> [])"
    by (simp add: s n ascii_only_def)
  show ?thesis
    using h symbol_normalised [where arguments = ?a and raw = "lit ''  infy''" and uc = ascii_only
        and C = "fixed_collaborators empty_response"]
    unfolding s u by blast
qed

section \<open>Properties of the formatters\<close>

subsection \<open>The price line\<close>

lemmas fmt_eval =
  fmt_magnitude_def round_half_even_def Let_def dec_digits.simps group3_def zero_pad_def
  floor_rat_numeral_div

lemma fmt_3500: "fmt_fixed True 2 (Fin 3500) = lit ''3,500.00''"
  by (simp add: fmt_eval lit_def)

lemma fmt_12_5: "fmt_fixed False 2 (Fin (25 / 2)) = lit ''12.50''"
  by (simp add: fmt_eval lit_def)

lemma fmt_0_36_double:
  "fmt_fixed False 2 (Fin (3242591731706757 / 9007199254740992)) = lit ''0.36''"
  by (simp add: fmt_eval lit_def)

lemma fmt_0_36: "fmt_fixed False 2 (Fin (9 / 25)) = lit ''0.36''"
  by (simp add: fmt_eval lit_def)

lemma py_join_Cons: "zs \<noteq> [] \<Longrightarrow> py_join sep (y # zs) = y @ sep @ py_join sep zs"
  by (cases zs) simp_all

lemma tcs_quote_blocks:
  "header_line (tcs_quote pct r) = lit ''TCS ('' @ str_or (company_name r) (lit ''TCS'') @ lit '') | NSE''"
  "day_range_line (tcs_quote pct r) = day_range_line r"
  "week_52_line (tcs_quote pct r) = week_52_line r"
  "volume_line (tcs_quote pct r) = volume_line r"
  "source_footer (tcs_quote pct r) = source_footer r"
  by (simp_all add: tcs_quote_def header_line_def day_range_line_def week_52_line_def
      volume_line_def volume_parts_def source_footer_def Let_def lit_append
      cong: option.case_cong if_cong)

lemma tcs_quote_price_line:
  "pct = Fin (3242591731706757 / 9007199254740992) \<or> pct = Fin (9 / 25) \<Longrightarrow>
   price_line (tcs_quote pct r) =
     [lit ''Price: '' @ RUPEE @ lit ''3,500.00  |  Change: +'' @ RUPEE @ lit ''12.50 (+0.36%)'']"
  by (auto simp add: tcs_quote_def price_line_def fmt_3500 fmt_12_5 fmt_0_36_double fmt_0_36 SEP_def
      lit_def simp del: fmt_fixed.simps)

lemma fmt_price_tcs_quote:
  assumes "pct = Fin (3242591731706757 / 9007199254740992) \<or> pct = Fin (9 / 25)"
  shows "fmt_price (tcs_quote pct r) =
     lit ''TCS ('' @ str_or (company_name r) (lit ''TCS'') @ lit '') | NSE'' @ NL @
     lit ''Price: '' @ RUPEE @ lit ''3,500.00  |  Change: +'' @ RUPEE @ lit ''12.50 (+0.36%)'' @ NL @
     py_join NL (day_range_line r @ week_52_line r @ volume_line r @ [source_footer r])"
  by (simp add: fmt_price_def price_lines_def tcs_quote_blocks tcs_quote_price_line [OF assms]
      py_join_Cons)

lemma fmt_tcs_full:
  "fmt_fixed True 2 (Fin 3480) = lit ''3,480.00''"
  "fmt_fixed True 2 (Fin (7021 / 2)) = lit ''3,510.50''"
  "fmt_fixed True 2 (Fin (6975 / 2)) = lit ''3,487.50''"
  "fmt_fixed True 2 (Fin 3056) = lit ''3,056.00''"
  "fmt_fixed True 2 (Fin 4255) = lit ''4,255.00''"
  "fmt_fixed True 2 (Fin (13841 / 4)) = lit ''3,460.25''"
  "fmt_fixed True 2 (Fin 3688) = lit ''3,688.00''"
  "fmt_int_grouped 1234567 = lit ''1,234,567''"
  by (simp_all add: fmt_eval fmt_int_grouped_def lit_def)

lemma tcs_full_rest:
  "py_join NL (day_range_line tcs_full @ week_52_line tcs_full @ volume_line tcs_full @
               [source_footer tcs_full]) =
   lit ''Day Range: '' @ RUPEE @ lit ''3,480.00 '' @ EN_DASH @ lit '' '' @ RUPEE @
     lit ''3,510.50  |  Prev Close: '' @ RUPEE @ lit ''3,487.50'' @ NL @
   lit ''52W Range: '' @ RUPEE @ lit ''3,056.00 '' @ EN_DASH @ lit '' '' @ RUPEE @ lit ''4,255.00'' @ NL @
   lit ''Volume: 1,234,567  |  MA50: '' @ RUPEE @ lit ''3,460.25  |  MA200: '' @ RUPEE @
     lit ''3,688.00'' @ NL @
   lit ''[Source: Yahoo Finance  |  As of: 2024-05-17T10:15:30]''"
  by (simp add: tcs_full_def tcs_quote_def empty_response_def day_range_line_def week_52_line_def
      volume_line_def volume_parts_def source_footer_def fmt_tcs_full SEP_def
      del: fmt_fixed.simps)
    (simp add: lit_def)

text \<open>
  Claim C5. For a response with symbol \<open>TCS\<close>, price 3500.00, change 12.5 and percent
  change 0.36 (the binary64 value that the literal \<open>0.36\<close> denotes, and also the exact
  decimal), the text that \<open>_fmt_price\<close> returns has, after the header line, the price line
  \<open>Price: \<close>\<open>RUPEE\<close>\<open>3,500.00  |  Change: +\<close>\<open>RUPEE\<close>\<open>12.50 (+0.36%)\<close>: thousands are grouped,
  two decimals are shown, and the sign \<open>+\<close> stands before the amount and the percentage.
  For the fully populated response \<open>tcs_full\<close> the whole text is given.
\<close>

theorem price_line_example:
  "fmt_price (tcs_quote (Fin (3242591731706757 / 9007199254740992)) r) =
     lit ''TCS ('' @ str_or (company_name r) (lit ''TCS'') @ lit '') | NSE'' @ NL @
     lit ''Price: '' @ RUPEE @ lit ''3,500.00  |  Change: +'' @ RUPEE @ lit ''12.50 (+0.36%)'' @ NL @
     py_join NL (day_range_line r @ week_52_line r @ volume_line r @ [source_footer r]) \<and>
   fmt_price (tcs_quote (Fin (9 / 25)) r) =
     lit ''TCS ('' @ str_or (company_name r) (lit ''TCS'') @ lit '') | NSE'' @ NL @
     lit ''Price: '' @ RUPEE @ lit ''3,500.00  |  Change: +'' @ RUPEE @ lit ''12.50 (+0.36%)'' @ NL @
     py_join NL (day_range_line r @ week_52_line r @ volume_line r @ [source_footer r]) \<and>
   fmt_price tcs_full =
     lit ''TCS (Tata Consultancy Services) | NSE'' @ NL @
     lit ''Price: '' @ RUPEE @ lit ''3,500.00  |  Change: +'' @ RUPEE @ lit ''12.50 (+0.36%)'' @ NL @
     lit ''Day Range: '' @ RUPEE @ lit ''3,480.00 '' @ EN_DASH @ lit '' '' @ RUPEE @
       lit ''3,510.50  |  Prev Close: '' @ RUPEE @ lit ''3,487.50'' @ NL @
     lit ''52W Range: '' @ RUPEE @ lit ''3,056.00 '' @ EN_DASH @ lit '' '' @ RUPEE @ lit ''4,255.00'' @ NL @
     lit ''Volume: 1,234,567  |  MA50: '' @ RUPEE @ lit ''3,460.25  |  MA200: '' @ RUPEE @
       lit ''3,688.00'' @ NL @
     lit ''[Source: Yahoo Finance  |  As of: 2024-05-17T10:15:30]'' \<and>
   price_line (tcs_quote (Fin (3242591731706757 / 9007199254740992)) r) =
     [lit ''Price: '' @ RUPEE @ lit ''3,500.00  |  Change: +'' @ RUPEE @ lit ''12.50 (+0.36%)''] \<and>
   price_lines (tcs_quote (Fin (3242591731706757 / 9007199254740992)) r) ! 1 =
     lit ''Price: '' @ RUPEE @ lit ''3,500.00  |  Change: +'' @ RUPEE @ lit ''12.50 (+0.36%)''"
proof -
  let ?d = "Fin (3242591731706757 / 9007199254740992)"
  have d: "?d = Fin (3242591731706757 / 9007199254740992) \<or> ?d = Fin (9 / 25)"
    and e: "Fin (9 / 25) = Fin (3242591731706757 / 9007199254740992) \<or> Fin (9 / 25) = Fin (9 / 25)"
    by simp_all
  let ?e = "empty_response
          \<lparr>company_name := Some (lit ''Tata Consultancy Services''),
           day_low := Some (Fin 3480), day_high := Some (Fin (7021 / 2)),
           prev_close := Some (Fin (6975 / 2)), week_52_low := Some (Fin 3056),
           week_52_high := Some (Fin 4255), volume := Some 1234567,
           ma_50 := Some (Fin (13841 / 4)), ma_200 := Some (Fin 3688)\<rparr>"
  have full: "tcs_full = tcs_quote ?d ?e"
    by (simp only: tcs_full_def)
  have blocks: "day_range_line ?e = day_range_line tcs_full"
    "week_52_line ?e = week_52_line tcs_full" "volume_line ?e = volume_line tcs_full"
    "source_footer ?e = source_footer tcs_full"
    by (simp_all only: full tcs_quote_blocks)
  have name: "str_or (company_name ?e) (lit ''TCS'') = lit ''Tata Consultancy Services''"
    by (simp add: str_or_def lit_def)
  have "fmt_price tcs_full =
     lit ''TCS ('' @ lit ''Tata Consultancy Services'' @ lit '') | NSE'' @ NL @
     lit ''Price: '' @ RUPEE @ lit ''3,500.00  |  Change: +'' @ RUPEE @ lit ''12.50 (+0.36%)'' @ NL @
     py_join NL (day_range_line tcs_full @ week_52_line tcs_full @ volume_line tcs_full @
                 [source_footer tcs_full])"
    using fmt_price_tcs_quote [OF d, of ?e] by (simp only: full [symmetric] blocks name)
  then have c: "fmt_price tcs_full =
     lit ''TCS (Tata Consultancy Services) | NSE'' @ NL @
     lit ''Price: '' @ RUPEE @ lit ''3,500.00  |  Change: +'' @ RUPEE @ lit ''12.50 (+0.36%)'' @ NL @
     lit ''Day Range: '' @ RUPEE @ lit ''3,480.00 '' @ EN_DASH @ lit '' '' @ RUPEE @
       lit ''3,510.50  |  Prev Close: '' @ RUPEE @ lit ''3,487.50'' @ NL @
     lit ''52W Range: '' @ RUPEE @ lit ''3,056.00 '' @ EN_DASH @ lit '' '' @ RUPEE @ lit ''4,255.00'' @ NL @
     lit ''Volume: 1,234,567  |  MA50: '' @ RUPEE @ lit ''3,460.25  |  MA200: '' @ RUPEE @
       lit ''3,688.00'' @ NL @
     lit ''[Source: Yahoo Finance  |  As of: 2024-05-17T10:15:30]''"
    by (simp only: tcs_full_rest) (simp add: lit_def)
  have l: "price_lines (tcs_quote ?d r) ! 1 =
     lit ''Price: '' @ RUPEE @ lit ''3,500.00  |  Change: +'' @ RUPEE @ lit ''12.50 (+0.36%)''"
    by (simp add: price_lines_def tcs_quote_price_line [OF d])
  show ?thesis
    using fmt_price_tcs_quote [OF d, of r] fmt_price_tcs_quote [OF e, of r]
      tcs_quote_price_line [OF d, of r] c l
    by blast
qed

subsection \<open>Zero is treated as absent\<close>




























subsection \<open>The price targets\<close>

lemma targets_line_high_absent:
  "float_truthy m \<Longrightarrow>
   targets_line (r\<lparr>target_mean_price := Some m, target_high_price := None\<rparr>) = Inl none_format_error"
  by (simp add: targets_line_def float_present_def fmt_fixed_opt_def)

lemma targets_line_low_absent:
  "float_truthy m \<Longrightarrow>
   targets_line (r\<lparr>target_mean_price := Some m, target_low_price := None\<rparr>) = Inl none_format_error"
  by (simp add: targets_line_def float_present_def fmt_fixed_opt_def split: option.splits)

lemma fmt_analysis_targets_error:
  "targets_line r = Inl e \<Longrightarrow> fmt_analysis uc r = Inl e"
  by (simp add: fmt_analysis_def analysis_sections_def analyst_def)

text \<open>
  Claim C1 says that the detailed layout is produced whenever the mean target is there,
  also when the high or the low target is absent. The code tests the mean target only and
  then formats all three: with a mean target of 3900.0 and no high target, or no low
  target, \<open>_fmt_analysis\<close> raises \<open>TypeError\<close>, and so does \<open>call_tool\<close> for
  \<open>get_stock_analysis\<close> on such a response.
\<close>

theorem price_targets_type_error:
  "fmt_analysis uc (r\<lparr>target_mean_price := Some (Fin 3900), target_high_price := None\<rparr>) =
     Inl (TypeError (lit ''unsupported format string passed to NoneType.__format__'')) \<and>
   fmt_analysis uc (r\<lparr>target_mean_price := Some (Fin 3900), target_low_price := None\<rparr>) =
     Inl (TypeError (lit ''unsupported format string passed to NoneType.__format__'')) \<and>
   fst (call_tool uc
          (C\<lparr>scrape_one := \<lambda>s n f. r\<lparr>scraped_ok := True, target_mean_price := Some (Fin 3900),
                                         target_high_price := None\<rparr>\<rparr>)
          (lit ''get_stock_analysis'') [lit ''symbol'' \<mapsto> JStr (lit ''TCS'')]) =
     Inl (TypeError (lit ''unsupported format string passed to NoneType.__format__''))"
proof -
  have t: "float_truthy (Fin 3900)" by simp
  let ?r = "r\<lparr>scraped_ok := True, target_mean_price := Some (Fin 3900), target_high_price := None\<rparr>"
  let ?C = "C\<lparr>scrape_one := \<lambda>s n f. ?r\<rparr>"
  let ?a = "[lit ''symbol'' \<mapsto> JStr (lit ''TCS'')]"
  have s: "stripped_arg ?a (lit ''symbol'') = Inr (lit ''TCS'')"
    by (simp add: stripped_str strip_TCS)
  have "targets_line ?r = Inl none_format_error"
    by (simp add: targets_line_def float_present_def fmt_fixed_opt_def)
  then have "fmt_analysis uc ?r = Inl none_format_error"
    by (rule fmt_analysis_targets_error)
  then have "fst (call_tool uc ?C (lit ''get_stock_analysis'') ?a) = Inl none_format_error"
    by (simp add: call_tool_def s upper_TCS lit_nonempty tool_name_distinct Let_def)
  then show ?thesis
    using fmt_analysis_targets_error [OF targets_line_high_absent [OF t], of uc r]
      fmt_analysis_targets_error [OF targets_line_low_absent [OF t], of uc r]
    by (simp add: none_format_error_def)
qed

subsection \<open>Recent news\<close>

lemma news_entries_length: "length (news_entries i xs) = 2 * length xs"
  by (induction xs arbitrary: i) (simp_all add: Let_def)

lemma news_entries_title:
  "k < length xs \<Longrightarrow>
   news_entries i xs ! (2 * k) = py_str_int (i + int k) @ lit ''. '' @ title (xs ! k)"
proof (induction xs arbitrary: i k)
  case Nil
  then show ?case by simp
next
  case (Cons item rest)
  show ?case
  proof (cases k)
    case 0
    then show ?thesis by (simp add: Let_def)
  next
    case (Suc j)
    with Cons.prems have "j < length rest" by simp
    then have "news_entries (i + 1) rest ! (2 * j) =
        py_str_int (i + 1 + int j) @ lit ''. '' @ title (rest ! j)"
      by (rule Cons.IH)
    with Suc show ?thesis by (simp add: Let_def add.assoc)
  qed
qed

lemma news_entries_detail:
  "k < length xs \<Longrightarrow>
   news_entries i xs ! (2 * k + 1) =
     lit ''   '' @ publisher (xs ! k) @ SEP @
     (case published_at (xs ! k) of
        None \<Rightarrow> lit ''N/A''
      | Some t \<Rightarrow> if t \<noteq> [] then take 10 t else lit ''N/A'') @
     SEP @ link (xs ! k)"
proof (induction xs arbitrary: i k)
  case Nil
  then show ?case by simp
next
  case (Cons item rest)
  show ?case
  proof (cases k)
    case 0
    then show ?thesis by (simp add: Let_def)
  next
    case (Suc j)
    with Cons.prems have "j < length rest" by simp
    then have "news_entries (i + 1) rest ! (2 * j + 1) =
        lit ''   '' @ publisher (rest ! j) @ SEP @
        (case published_at (rest ! j) of
           None \<Rightarrow> lit ''N/A''
         | Some t \<Rightarrow> if t \<noteq> [] then take 10 t else lit ''N/A'') @
        SEP @ link (rest ! j)"
      by (rule Cons.IH)
    with Suc show ?thesis by (simp add: Let_def)
  qed
qed

lemma analysis_sections_news:
  assumes "news r \<noteq> []" and "analysis_sections uc r = Inr sections"
  shows "\<exists>front. sections =
           front @ section_title ''RECENT NEWS'' # news_entries 1 (take 5 (news r)) @
           [NL @ source_footer r]"
  using assms
  by (auto simp: analysis_sections_def news_block_def split: sum.splits)

lemma news_entries_shows:
  assumes "k < length xs"
  shows "entry_shows (news_entries 1 xs) k (xs ! k)"
  unfolding entry_shows_def
  using news_entries_title [OF assms, of 1] news_entries_detail [OF assms, of 1]
  by (simp add: add.commute)

lemma recent_news_entries:
  "news r \<noteq> [] \<and> fmt_analysis uc r = Inr out \<longrightarrow>
     (\<exists>front entries.
        out = py_join NL (front @ section_title ''RECENT NEWS'' # entries @ [NL @ source_footer r]) \<and>
        length entries = 2 * min 5 (length (news r)) \<and>
        (\<forall>k < min 5 (length (news r)). entry_shows entries k (news r ! k)))"
  (is "?given \<longrightarrow> ?shown")
proof
  assume a: ?given
  then obtain sections where s: "analysis_sections uc r = Inr sections"
    and t: "out = py_join NL sections"
    by (auto simp: fmt_analysis_def split: sum.splits)
  let ?first = "take 5 (news r)"
  let ?entries = "news_entries 1 ?first"
  from a s obtain front where f: "sections =
      front @ section_title ''RECENT NEWS'' # ?entries @ [NL @ source_footer r]"
    using analysis_sections_news by blast
  have len: "length ?first = min 5 (length (news r))"
    by (simp add: min.commute)
  have "length ?entries = 2 * min 5 (length (news r))"
    by (simp only: news_entries_length len)
  moreover have "entry_shows ?entries k (news r ! k)" if k: "k < min 5 (length (news r))" for k
  proof -
    from k have "k < length ?first" by simp
    then have "entry_shows ?entries k (?first ! k)" by (rule news_entries_shows)
    with k show ?thesis by simp
  qed
  ultimately show ?shown
    using t f by blast
qed

lemma recent_news_entries_example:
  "\<exists>out front entries.
     fmt_analysis ascii_only (empty_response\<lparr>news := six_news\<rparr>) = Inr out \<and>
     out = py_join NL (front @ section_title ''RECENT NEWS'' # entries @
              [NL @ source_footer (empty_response\<lparr>news := six_news\<rparr>)]) \<and>
     length entries = 10 \<and>
     entries ! 0 = lit ''1. Q4 results'' \<and>
     entries ! 1 = lit ''   Mint'' @ SEP @ lit ''2024-05-16'' @ SEP @ lit ''https://a.example/1'' \<and>
     entries ! 3 = lit ''   ET'' @ SEP @ lit ''N/A'' @ SEP @ lit ''https://a.example/2'' \<and>
     entries ! 8 = lit ''5. Hiring plan''"
proof -
  let ?r = "empty_response\<lparr>news := six_news\<rparr>"
  obtain out where t: "fmt_analysis ascii_only ?r = Inr out"
    by (simp add: fmt_analysis_def analysis_sections_def analyst_def targets_line_def
        float_present_def empty_response_def)
  have n: "news ?r \<noteq> []" and l: "min 5 (length (news ?r)) = 5"
    by (simp_all add: six_news_def)
  from n t recent_news_entries [of ?r ascii_only out]
  obtain front entries where
    f: "out = py_join NL (front @ section_title ''RECENT NEWS'' # entries @ [NL @ source_footer ?r])"
    and len: "length entries = 2 * min 5 (length (news ?r))"
    and e: "\<forall>k < min 5 (length (news ?r)). entry_shows entries k (news ?r ! k)"
    by blast
  from e have e5: "\<forall>k < 5. entry_shows entries k (news ?r ! k)"
    unfolding l .
  then have e0: "entry_shows entries 0 (news ?r ! 0)"
    and e1: "entry_shows entries 1 (news ?r ! 1)"
    and e4: "entry_shows entries 4 (news ?r ! 4)"
    by simp_all
  have "entries ! 0 = lit ''1. Q4 results''"
    using e0 by (simp add: entry_shows_def six_news_def py_str_int_def dec_digits.simps lit_def)
  moreover have "entries ! 1 =
      lit ''   Mint'' @ SEP @ lit ''2024-05-16'' @ SEP @ lit ''https://a.example/1''"
    using e0 by (simp add: entry_shows_def six_news_def lit_def)
  moreover have "entries ! 3 = lit ''   ET'' @ SEP @ lit ''N/A'' @ SEP @ lit ''https://a.example/2''"
    using e1 by (simp add: entry_shows_def six_news_def lit_def)
  moreover have "entries ! 8 = lit ''5. Hiring plan''"
    using e4 by (simp add: entry_shows_def six_news_def py_str_int_def dec_digits.simps lit_def)
  moreover have "length entries = 10"
    using len l by simp
  ultimately show ?thesis
    using t f by blast
qed

text \<open>
  Claim C6 says that for every response with a non-empty news list the detailed layout
  has a \<open>RECENT NEWS\<close> section with the first \<open>min 5 n\<close> items. Whenever \<open>_fmt_analysis\<close>
  returns, it has (\<open>recent_news_entries\<close>). But the price targets are formatted before the
  news: with six news items, a mean target of 3900.0 and no high target, \<open>_fmt_analysis\<close>
  raises \<open>TypeError\<close> and returns no text, so no news section is produced.
\<close>

theorem recent_news_lost_on_type_error:
  "news (r\<lparr>news := six_news, target_mean_price := Some (Fin 3900), target_high_price := None\<rparr>) \<noteq> [] \<and>
   fmt_analysis uc
       (r\<lparr>news := six_news, target_mean_price := Some (Fin 3900), target_high_price := None\<rparr>) =
     Inl (TypeError (lit ''unsupported format string passed to NoneType.__format__''))"
proof -
  have t: "float_truthy (Fin 3900)" by simp
  have "fmt_analysis uc ((r\<lparr>news := six_news\<rparr>)
          \<lparr>target_mean_price := Some (Fin 3900), target_high_price := None\<rparr>) =
        Inl none_format_error"
    by (rule fmt_analysis_targets_error [OF targets_line_high_absent [OF t]])
  then show ?thesis
    by (simp add: none_format_error_def six_news_def)
qed

end
